theory Spec2Isabelle
  imports Main "HOL-Library.AList"
begin

section \<open>JavaScript values and objects\<close>

text \<open>
  The configuration handled by \<^verbatim>\<open>src/extension.ts\<close> is a
  \<^verbatim>\<open>vscode.DebugConfiguration\<close>: a plain object with an index signature
  \<^verbatim>\<open>[key: string]: any\<close>, read from JSON. Its values are modelled by the
  JavaScript value kinds that JSON can produce, plus \<^verbatim>\<open>undefined\<close> for a
  property that is read but absent. Numbers are integers here: the code only tests numbers
  for truthiness, and a JSON number is falsy exactly when it is zero.

  An object is an association list in property order. Reading a property looks the key
  up (\<^verbatim>\<open>undefined\<close> when absent); assigning one replaces the value in place when
  the key exists and appends it otherwise, which is what \<open>AList.update\<close> does.
\<close>

datatype jsval =
    JUndefined
  | JNull
  | JBool bool
  | JNum int
  | JStr string
  | JArr "jsval list"
  | JObj "(string \<times> jsval) list"

type_synonym JsObject = "(string \<times> jsval) list"

definition getProp :: "JsObject \<Rightarrow> string \<Rightarrow> jsval" where
  "getProp obj k = (case map_of obj k of None \<Rightarrow> JUndefined | Some v \<Rightarrow> v)"

definition setProp :: "JsObject \<Rightarrow> string \<Rightarrow> jsval \<Rightarrow> JsObject" where
  "setProp obj k v = AList.update k v obj"

text \<open>The operator \<^verbatim>\<open>k in obj\<close>.\<close>

definition hasProp :: "string \<Rightarrow> JsObject \<Rightarrow> bool" where
  "hasProp k obj = (k \<in> set (map fst obj))"

text \<open>Truthiness (\<^verbatim>\<open>ToBoolean\<close>), and the operators \<^verbatim>\<open>||\<close>,
  \<^verbatim>\<open>&&\<close> and \<^verbatim>\<open>??\<close>, which return one of their operands.\<close>

fun truthy :: "jsval \<Rightarrow> bool" where
  "truthy JUndefined = False"
| "truthy JNull = False"
| "truthy (JBool b) = b"
| "truthy (JNum n) = (n \<noteq> 0)"
| "truthy (JStr s) = (s \<noteq> [])"
| "truthy (JArr xs) = True"
| "truthy (JObj ps) = True"

fun nullish :: "jsval \<Rightarrow> bool" where
  "nullish JUndefined = True"
| "nullish JNull = True"
| "nullish v = False"

definition js_or :: "jsval \<Rightarrow> jsval \<Rightarrow> jsval" where
  "js_or a b = (if truthy a then a else b)"

definition js_and :: "jsval \<Rightarrow> jsval \<Rightarrow> jsval" where
  "js_and a b = (if truthy a then b else a)"

definition js_coalesce :: "jsval \<Rightarrow> jsval \<Rightarrow> jsval" where
  "js_coalesce a b = (if nullish a then b else a)"

text \<open>
  Spreading a value into an argument list (\<^verbatim>\<open>push(...v)\<close>): an array gives
  its elements, a string its characters, and any other value of the model is not iterable,
  which raises a \<^verbatim>\<open>TypeError\<close>.
\<close>

datatype JsError = Error string | TypeError

fun spread :: "jsval \<Rightarrow> JsError + jsval list" where
  "spread (JArr xs) = Inr xs"
| "spread (JStr s) = Inr (map (\<lambda>c. JStr [c]) s)"
| "spread v = Inl TypeError"

section \<open>The host environment\<close>

text \<open>
  The code reads three things from its environment: the workspace folder passed by the
  host, \<^verbatim>\<open>vscode.window.activeTextEditor\<close>, and the file system through
  \<^verbatim>\<open>fs.existsSync(path.join(..))\<close>. The two library functions are parameters of
  the model.
\<close>

record Uri =
  scheme :: string
  fsPath :: string

record WorkspaceFolder =
  uri :: Uri

record TextEditor =
  document_uri :: Uri

record Host =
  activeTextEditor :: "TextEditor option"
  existsSync :: "string \<Rightarrow> bool"
  path_join :: "string \<Rightarrow> string \<Rightarrow> string"

text \<open>
  The three locals computed alike by the dynamic provider (lines 158 to 162) and by the
  resolver (lines 238 to 242); each is only ever tested for truthiness, so \<open>docValid\<close>
  and \<open>hasDescription\<close> are booleans.
\<close>

definition docValid :: "Host \<Rightarrow> bool" where
  "docValid host =
     (case activeTextEditor host of
        None \<Rightarrow> False
      | Some doc \<Rightarrow> scheme (document_uri doc) = ''file'')"

definition wd :: "Host \<Rightarrow> WorkspaceFolder option \<Rightarrow> string" where
  "wd host folder =
     (if folder \<noteq> None then ''${workspaceFolder}''
      else if docValid host then ''${fileDirname}'' else ''.'')"

definition hasDescription :: "Host \<Rightarrow> WorkspaceFolder option \<Rightarrow> bool" where
  "hasDescription host folder =
     (case folder of
        None \<Rightarrow> False
      | Some f \<Rightarrow> existsSync host (path_join host (fsPath (uri f)) ''DESCRIPTION''))"

section \<open>DebugAdapterDescriptorFactory\<close>

text \<open>
  \<open>createDebugAdapterDescriptor\<close> (lines 88 to 103) returns one of two descriptors or
  throws. The help panel is an opaque collaborator, so its type is a parameter. The
  annotations \<^verbatim>\<open>port: number\<close> and \<^verbatim>\<open>host: string\<close> are not checked at run
  time, so the server descriptor holds whatever value \<^verbatim>\<open>||\<close> returned.
\<close>

datatype 'h DebugAdapterDescriptor =
    DebugAdapterInlineImplementation "'h option" "jsval list"
  | DebugAdapterServer jsval jsval

definition invalidRequestMessage :: string where
  "invalidRequestMessage =
     ''Invalid entry '' @ [CHR 0x22] @ ''request'' @ [CHR 0x22] @
     '' in debug config. Valid entries are '' @ [CHR 0x22] @ ''launch'' @ [CHR 0x22] @
     '' and '' @ [CHR 0x22] @ ''attach'' @ [CHR 0x22]"

definition createDebugAdapterDescriptor ::
  "'h option \<Rightarrow> JsObject \<Rightarrow> JsError + 'h DebugAdapterDescriptor" where
  "createDebugAdapterDescriptor helpPanel config =
     (if getProp config ''request'' = JStr ''launch'' then
        (if hasProp ''commandLineArgs'' config then
           (case spread (getProp config ''commandLineArgs'') of
              Inl e \<Rightarrow> Inl e
            | Inr commandLineArgs \<Rightarrow>
                Inr (DebugAdapterInlineImplementation helpPanel commandLineArgs))
         else Inr (DebugAdapterInlineImplementation helpPanel []))
      else if getProp config ''request'' = JStr ''attach'' then
        (let port = js_or (getProp config ''port'') (JNum 18721);
             host = js_or (getProp config ''host'') (JStr ''localhost'')
         in Inr (DebugAdapterServer port host))
      else Inl (Error invalidRequestMessage))"

section \<open>DynamicDebugConfigurationProvider\<close>

text \<open>\<open>provideDebugConfigurations\<close> of the dynamic provider (lines 156 to 219): the
  list \<^verbatim>\<open>configs\<close> after each \<^verbatim>\<open>push\<close>, in order.\<close>

definition provideDebugConfigurations :: "Host \<Rightarrow> WorkspaceFolder option \<Rightarrow> JsObject list" where
  "provideDebugConfigurations host folder =
     [[(''type'', JStr ''R-Debugger''),
       (''request'', JStr ''launch''),
       (''name'', JStr ''Launch R-Workspace''),
       (''debugMode'', JStr ''workspace''),
       (''workingDirectory'', JStr (wd host folder)),
       (''allowGlobalDebugging'', JBool True)]]
     @ (if docValid host then
          [[(''type'', JStr ''R-Debugger''),
            (''request'', JStr ''launch''),
            (''name'', JStr ''Debug R-File''),
            (''debugMode'', JStr ''file''),
            (''workingDirectory'', JStr (wd host folder)),
            (''file'', JStr ''${file}''),
            (''allowGlobalDebugging'', JBool True)],
           [(''type'', JStr ''R-Debugger''),
            (''request'', JStr ''launch''),
            (''name'', JStr ''Debug R-Function''),
            (''debugMode'', JStr ''function''),
            (''workingDirectory'', JStr (wd host folder)),
            (''file'', JStr ''${file}''),
            (''mainFunction'', JStr ''main''),
            (''allowGlobalDebugging'', JBool False)]]
        else [])
     @ (if hasDescription host folder then
          [[(''type'', JStr ''R-Debugger''),
            (''name'', JStr ''Debug R-Package''),
            (''request'', JStr ''launch''),
            (''debugMode'', JStr ''workspace''),
            (''workingDirectory'', JStr (wd host folder)),
            (''loadPackages'', JArr [JStr ''.'']),
            (''includePackageScopes'', JBool True),
            (''allowGlobalDebugging'', JBool True)]]
        else [])
     @ [[(''type'', JStr ''R-Debugger''),
         (''request'', JStr ''attach''),
         (''name'', JStr ''Attach to R process''),
         (''splitOverwrittenOutput'', JBool True)]]"

section \<open>DebugConfigurationResolver\<close>

record Resolver =
  customPort :: int
  customHost :: string
  supportsHelpViewer :: bool

text \<open>
  The resolver ends by assigning \<^verbatim>\<open>strictConfig\<close> the configuration under one of
  four type assertions, or \<^verbatim>\<open>null\<close>. The assertion is the only tag the code
  gives its result, so the model returns it beside the object.
\<close>

datatype StrictTag =
    AttachConfiguration
  | FunctionDebugConfiguration
  | FileDebugConfiguration
  | WorkspaceDebugConfiguration

text \<open>Lines 245 to 277: the configuration used when the debugger was launched without
  one. The local \<^verbatim>\<open>config\<close> is rebound to a fresh object literal.\<close>

definition launchedWithoutConfig :: "JsObject \<Rightarrow> bool" where
  "launchedWithoutConfig config =
     (\<not> truthy (getProp config ''type'') \<and>
      \<not> truthy (getProp config ''request'') \<and>
      \<not> truthy (getProp config ''name''))"

definition defaultConfig :: "Host \<Rightarrow> WorkspaceFolder option \<Rightarrow> JsObject" where
  "defaultConfig host folder =
     (if hasDescription host folder then
        [(''type'', JStr ''R-Debugger''),
         (''name'', JStr ''Debug R-Package''),
         (''request'', JStr ''launch''),
         (''debugMode'', JStr ''workspace''),
         (''workingDirectory'', JStr (wd host folder)),
         (''loadPackages'', JArr [JStr ''.'']),
         (''includePackageScopes'', JBool True),
         (''allowGlobalDebugging'', JBool True)]
      else if docValid host then
        [(''type'', JStr ''R-Debugger''),
         (''name'', JStr ''Launch R Debugger''),
         (''request'', JStr ''launch''),
         (''debugMode'', JStr ''file''),
         (''file'', JStr ''${file}''),
         (''workingDirectory'', JStr (wd host folder))]
      else
        [(''type'', JStr ''R-Debugger''),
         (''name'', JStr ''Launch R Debugger''),
         (''request'', JStr ''launch''),
         (''debugMode'', JStr ''workspace''),
         (''workingDirectory'', JStr (wd host folder))])"

text \<open>Lines 279 and 280: the defaults of \<^verbatim>\<open>debugMode\<close> and
  \<^verbatim>\<open>allowGlobalDebugging\<close>.\<close>

definition fillDefaults :: "Host \<Rightarrow> JsObject \<Rightarrow> JsObject" where
  "fillDefaults host config =
     (let config = setProp config ''debugMode''
            (js_or (getProp config ''debugMode'')
               (JStr (if docValid host then ''file'' else ''workspace'')))
      in setProp config ''allowGlobalDebugging''
           (js_coalesce (getProp config ''allowGlobalDebugging'') (JBool True)))"

text \<open>Lines 283 to 298: custom capabilities and socket information.\<close>

definition fillCapabilities :: "Resolver \<Rightarrow> JsObject \<Rightarrow> JsObject" where
  "fillCapabilities this config =
     (if getProp config ''request'' = JStr ''launch'' then
        (let config = setProp config ''supportsStdoutReading'' (JBool True);
             config = setProp config ''supportsWriteToStdinEvent'' (JBool True);
             config = setProp config ''supportsShowingPromptRequest'' (JBool True);
             config = setProp config ''overwriteHelp''
               (js_coalesce (getProp config ''overwriteHelp'') (JBool True))
         in setProp config ''overwriteHelp''
              (js_and (getProp config ''overwriteHelp'') (JBool (supportsHelpViewer this))))
      else if getProp config ''request'' = JStr ''attach'' then
        (let config = setProp config ''customPort''
               (js_coalesce (getProp config ''customPort'') (JNum (customPort this)));
             config = setProp config ''customHost''
               (js_or (getProp config ''customHost'') (JStr (customHost this)));
             config = setProp config ''useCustomSocket''
               (js_coalesce (getProp config ''useCustomSocket'') (JBool True));
             config = setProp config ''supportsWriteToStdinEvent''
               (js_coalesce (getProp config ''supportsWriteToStdinEvent'') (JBool True))
         in setProp config ''overwriteLoadAll'' (JBool False))
      else config)"

text \<open>Lines 300 to 323: the required fields of the debug mode, and the result.\<close>

definition matchDebugMode ::
  "Host \<Rightarrow> WorkspaceFolder option \<Rightarrow> JsObject \<Rightarrow> (StrictTag \<times> JsObject) option" where
  "matchDebugMode host folder config =
     (let debugMode = getProp config ''debugMode'' in
      if getProp config ''request'' = JStr ''attach'' then
        Some (AttachConfiguration, config)
      else if debugMode = JStr ''function'' then
        (let config = setProp config ''workingDirectory''
               (js_or (getProp config ''workingDirectory'') (JStr (wd host folder)));
             config = setProp config ''file''
               (js_or (getProp config ''file'') (JStr ''${file}''));
             config = setProp config ''mainFunction''
               (js_or (getProp config ''mainFunction'') (JStr ''main''))
         in Some (FunctionDebugConfiguration, config))
      else if debugMode = JStr ''file'' then
        (let config = setProp config ''workingDirectory''
               (js_or (getProp config ''workingDirectory'') (JStr (wd host folder)));
             config = setProp config ''file''
               (js_or (getProp config ''file'') (JStr ''${file}''))
         in Some (FileDebugConfiguration, config))
      else if debugMode = JStr ''workspace'' then
        (let config = setProp config ''workingDirectory''
               (js_or (getProp config ''workingDirectory'') (JStr (wd host folder)))
         in Some (WorkspaceDebugConfiguration, config))
      else None)"

text \<open>
  \<open>resolveDebugConfiguration\<close> (lines 234 to 324). The body has no \<^verbatim>\<open>throw\<close>
  and calls nothing that can fail on an object, so the model has no error result:
  \<open>None\<close> is the \<^verbatim>\<open>null\<close> the code returns. The cancellation token is unused.
\<close>

definition resolveDebugConfiguration ::
  "Resolver \<Rightarrow> Host \<Rightarrow> WorkspaceFolder option \<Rightarrow> JsObject \<Rightarrow> (StrictTag \<times> JsObject) option" where
  "resolveDebugConfiguration this host folder config =
     (let config = (if launchedWithoutConfig config then defaultConfig host folder else config);
          config = fillDefaults host config;
          config = fillCapabilities this config
      in matchDebugMode host folder config)"

section \<open>Example environments\<close>

text \<open>Concrete resolvers, hosts and folders on which the properties below are run: a
  resolver without help viewer, a host with no editor and one with a file open, a folder
  that holds a \<^verbatim>\<open>DESCRIPTION\<close> file and one that does not.\<close>

definition exampleResolver :: Resolver where
  "exampleResolver = \<lparr>customPort = 5000, customHost = ''localhost'', supportsHelpViewer = False\<rparr>"

definition noEditor :: Host where
  "noEditor = \<lparr>activeTextEditor = None, existsSync = (\<lambda>p. p = ''/pkg/DESCRIPTION''),
     path_join = (\<lambda>a b. a @ ''/'' @ b)\<rparr>"

definition fileEditor :: Host where
  "fileEditor =
     \<lparr>activeTextEditor =
        Some \<lparr>document_uri = \<lparr>scheme = ''file'', fsPath = ''/home/a.R''\<rparr>\<rparr>,
      existsSync = (\<lambda>p. p = ''/pkg/DESCRIPTION''),
      path_join = (\<lambda>a b. a @ ''/'' @ b)\<rparr>"

definition pkgFolder :: WorkspaceFolder where
  "pkgFolder = \<lparr>uri = \<lparr>scheme = ''file'', fsPath = ''/pkg''\<rparr>\<rparr>"

definition plainFolder :: WorkspaceFolder where
  "plainFolder = \<lparr>uri = \<lparr>scheme = ''file'', fsPath = ''/work''\<rparr>\<rparr>"

section \<open>Reading and writing properties\<close>

lemma getProp_setProp:
  "getProp (setProp obj k v) k' = (if k' = k then v else getProp obj k')"
  by (simp add: getProp_def setProp_def update_conv')

lemma map_of_setProp:
  "map_of (setProp obj k v) k' = (if k' = k then Some v else map_of obj k')"
  by (simp add: setProp_def update_conv')

lemma getProp_Some: "truthy (getProp c k) \<Longrightarrow> map_of c k = Some (getProp c k)"
  by (auto simp: getProp_def split: option.splits)

lemma getProp_eq_Some: "getProp c k = v \<Longrightarrow> v \<noteq> JUndefined \<Longrightarrow> map_of c k = Some v"
  by (auto simp: getProp_def split: option.splits)

lemma getProp_cong: "map_of c k = map_of c' k \<Longrightarrow> getProp c k = getProp c' k"
  by (simp add: getProp_def)

lemma getProp_map_of: "map_of c k = Some v \<Longrightarrow> getProp c k = v"
  by (simp add: getProp_def)

lemma wd_nonempty: "wd host folder \<noteq> []"
  by (simp add: wd_def)

lemma hasDescription_folder: "hasDescription host folder \<Longrightarrow> folder \<noteq> None"
  by (auto simp: hasDescription_def split: option.splits)

section \<open>The stages of resolution\<close>

text \<open>What each stage leaves under every key.\<close>

lemma map_of_fillDefaults:
  "map_of (fillDefaults host c) k =
     (if k = ''allowGlobalDebugging''
      then Some (js_coalesce (getProp c ''allowGlobalDebugging'') (JBool True))
      else if k = ''debugMode''
      then Some (js_or (getProp c ''debugMode'')
                   (JStr (if docValid host then ''file'' else ''workspace'')))
      else map_of c k)"
  by (simp add: fillDefaults_def Let_def map_of_setProp getProp_setProp)

lemma getProp_fillDefaults:
  "getProp (fillDefaults host c) k =
     (if k = ''allowGlobalDebugging''
      then js_coalesce (getProp c ''allowGlobalDebugging'') (JBool True)
      else if k = ''debugMode''
      then js_or (getProp c ''debugMode'')
             (JStr (if docValid host then ''file'' else ''workspace''))
      else getProp c k)"
  by (simp add: getProp_def [of "fillDefaults host c"] map_of_fillDefaults)
     (simp add: getProp_def)

lemma map_of_fillCapabilities_launch:
  assumes "getProp c ''request'' = JStr ''launch''"
  shows "map_of (fillCapabilities this c) k =
     (if k = ''overwriteHelp''
      then Some (js_and (js_coalesce (getProp c ''overwriteHelp'') (JBool True))
                   (JBool (supportsHelpViewer this)))
      else if k = ''supportsStdoutReading'' \<or> k = ''supportsWriteToStdinEvent''
              \<or> k = ''supportsShowingPromptRequest''
      then Some (JBool True)
      else map_of c k)"
  using assms by (simp add: fillCapabilities_def Let_def map_of_setProp getProp_setProp)

lemma map_of_fillCapabilities_attach:
  assumes "getProp c ''request'' = JStr ''attach''"
  shows "map_of (fillCapabilities this c) k =
     (if k = ''overwriteLoadAll'' then Some (JBool False)
      else if k = ''supportsWriteToStdinEvent''
      then Some (js_coalesce (getProp c ''supportsWriteToStdinEvent'') (JBool True))
      else if k = ''useCustomSocket''
      then Some (js_coalesce (getProp c ''useCustomSocket'') (JBool True))
      else if k = ''customHost''
      then Some (js_or (getProp c ''customHost'') (JStr (customHost this)))
      else if k = ''customPort''
      then Some (js_coalesce (getProp c ''customPort'') (JNum (customPort this)))
      else map_of c k)"
  using assms by (simp add: fillCapabilities_def Let_def map_of_setProp getProp_setProp)

lemma fillCapabilities_other:
  assumes "getProp c ''request'' \<noteq> JStr ''launch''" "getProp c ''request'' \<noteq> JStr ''attach''"
  shows "fillCapabilities this c = c"
  using assms by (simp add: fillCapabilities_def)

lemma getProp_fillCapabilities_request:
  "getProp (fillCapabilities this c) ''request'' = getProp c ''request''"
  by (simp add: fillCapabilities_def Let_def getProp_setProp)

lemma getProp_fillCapabilities_debugMode:
  "getProp (fillCapabilities this c) ''debugMode'' = getProp c ''debugMode''"
  by (simp add: fillCapabilities_def Let_def getProp_setProp)

lemma matchDebugMode_attach:
  "getProp c ''request'' = JStr ''attach'' \<Longrightarrow>
   matchDebugMode host folder c = Some (AttachConfiguration, c)"
  by (simp add: matchDebugMode_def)

lemma matchDebugMode_None:
  assumes "getProp c ''request'' \<noteq> JStr ''attach''"
  shows "(matchDebugMode host folder c = None) =
         (getProp c ''debugMode'' \<noteq> JStr ''function'' \<and>
          getProp c ''debugMode'' \<noteq> JStr ''file'' \<and>
          getProp c ''debugMode'' \<noteq> JStr ''workspace'')"
  using assms by (simp add: matchDebugMode_def Let_def)

lemma matchDebugMode_Some:
  assumes "getProp c ''request'' \<noteq> JStr ''attach''"
      and "matchDebugMode host folder c = Some (tag, c')"
  shows "tag \<noteq> AttachConfiguration \<and>
         getProp c ''debugMode'' =
           JStr (case tag of FunctionDebugConfiguration \<Rightarrow> ''function''
                 | FileDebugConfiguration \<Rightarrow> ''file'' | _ \<Rightarrow> ''workspace'') \<and>
         (\<forall>k. k \<noteq> ''workingDirectory'' \<and> k \<noteq> ''file'' \<and> k \<noteq> ''mainFunction''
              \<longrightarrow> map_of c' k = map_of c k)"
  using assms
  by (auto simp: matchDebugMode_def Let_def map_of_setProp split: if_splits)

lemma matchDebugMode_function:
  assumes "getProp c ''request'' \<noteq> JStr ''attach''"
      and "getProp c ''debugMode'' = JStr ''function''"
  shows "\<exists>c'. matchDebugMode host folder c = Some (FunctionDebugConfiguration, c') \<and>
     (\<forall>k. map_of c' k =
        (if k = ''mainFunction''
         then Some (js_or (getProp c ''mainFunction'') (JStr ''main''))
         else if k = ''file''
         then Some (js_or (getProp c ''file'') (JStr ''${file}''))
         else if k = ''workingDirectory''
         then Some (js_or (getProp c ''workingDirectory'') (JStr (wd host folder)))
         else map_of c k))"
  using assms by (simp add: matchDebugMode_def Let_def map_of_setProp getProp_setProp)

text \<open>A configuration that carries a truthy \<^verbatim>\<open>request\<close> is not replaced, and
  the three remaining stages run on it.\<close>

lemma not_launchedWithoutConfig:
  "truthy (getProp config ''request'') \<Longrightarrow> \<not> launchedWithoutConfig config"
  by (simp add: launchedWithoutConfig_def)

lemma resolve_with_config:
  "\<not> launchedWithoutConfig config \<Longrightarrow>
   resolveDebugConfiguration this host folder config =
     matchDebugMode host folder (fillCapabilities this (fillDefaults host config))"
  by (simp add: resolveDebugConfiguration_def Let_def)

lemma resolve_attach:
  assumes "getProp config ''request'' = JStr ''attach''"
  shows "resolveDebugConfiguration this host folder config =
           Some (AttachConfiguration, fillCapabilities this (fillDefaults host config))"
proof -
  have "\<not> launchedWithoutConfig config"
    using assms by (simp add: not_launchedWithoutConfig)
  moreover have "getProp (fillCapabilities this (fillDefaults host config)) ''request''
                   = JStr ''attach''"
    using assms by (simp add: getProp_fillCapabilities_request getProp_fillDefaults)
  ultimately show ?thesis
    by (simp add: resolve_with_config matchDebugMode_attach)
qed

lemma resolve_not_attach:
  assumes "\<not> launchedWithoutConfig config"
      and "getProp config ''request'' \<noteq> JStr ''attach''"
  shows "(resolveDebugConfiguration this host folder config = None) =
           (truthy (getProp config ''debugMode'') \<and>
            getProp config ''debugMode'' \<noteq> JStr ''function'' \<and>
            getProp config ''debugMode'' \<noteq> JStr ''file'' \<and>
            getProp config ''debugMode'' \<noteq> JStr ''workspace'')"
proof -
  have "getProp (fillCapabilities this (fillDefaults host config)) ''request'' \<noteq> JStr ''attach''"
    using assms(2) by (simp add: getProp_fillCapabilities_request getProp_fillDefaults)
  then show ?thesis
    using assms(1)
    by (auto simp: resolve_with_config matchDebugMode_None getProp_fillCapabilities_debugMode
        getProp_fillDefaults js_or_def)
qed

lemma resolve_Some_fields:
  assumes "\<not> launchedWithoutConfig config"
      and "getProp config ''request'' \<noteq> JStr ''attach''"
      and "resolveDebugConfiguration this host folder config = Some (tag, c')"
  shows "tag \<noteq> AttachConfiguration"
    and "getProp c' ''debugMode'' =
           JStr (case tag of FunctionDebugConfiguration \<Rightarrow> ''function''
                 | FileDebugConfiguration \<Rightarrow> ''file'' | _ \<Rightarrow> ''workspace'')"
    and "k \<noteq> ''workingDirectory'' \<Longrightarrow> k \<noteq> ''file'' \<Longrightarrow> k \<noteq> ''mainFunction'' \<Longrightarrow>
         map_of c' k = map_of (fillCapabilities this (fillDefaults host config)) k"
proof -
  let ?c = "fillCapabilities this (fillDefaults host config)"
  have req: "getProp ?c ''request'' \<noteq> JStr ''attach''"
    using assms(2) by (simp add: getProp_fillCapabilities_request getProp_fillDefaults)
  have m: "matchDebugMode host folder ?c = Some (tag, c')"
    using assms(1,3) by (simp add: resolve_with_config)
  note s = matchDebugMode_Some [OF req m]
  show "tag \<noteq> AttachConfiguration" using s by simp
  have same: "map_of c' k = map_of ?c k"
    if "k \<noteq> ''workingDirectory''" "k \<noteq> ''file''" "k \<noteq> ''mainFunction''" for k
    using s that by simp
  show "k \<noteq> ''workingDirectory'' \<Longrightarrow> k \<noteq> ''file'' \<Longrightarrow> k \<noteq> ''mainFunction'' \<Longrightarrow>
         map_of c' k = map_of ?c k"
    by (rule same)
  have "getProp c' ''debugMode'' = getProp ?c ''debugMode''"
    by (rule getProp_cong) (simp add: same)
  then show "getProp c' ''debugMode'' =
           JStr (case tag of FunctionDebugConfiguration \<Rightarrow> ''function''
                 | FileDebugConfiguration \<Rightarrow> ''file'' | _ \<Rightarrow> ''workspace'')"
    using s by simp
qed

section \<open>Resolution of an unrecognized request\<close>

text \<open>
  C1, as the code has it. The resolver has no failing path. For a configuration that is
  not replaced (one of \<^verbatim>\<open>type\<close>, \<^verbatim>\<open>request\<close>, \<^verbatim>\<open>name\<close> is truthy)
  and whose \<^verbatim>\<open>request\<close> is neither \<^verbatim>\<open>"launch"\<close> nor \<^verbatim>\<open>"attach"\<close>,
  the capability stage is skipped and the result is decided by \<^verbatim>\<open>debugMode\<close> alone:
  it is \<^verbatim>\<open>null\<close> exactly when \<^verbatim>\<open>debugMode\<close> is truthy and none of the three
  modes, and otherwise an ordinary function, file or workspace configuration that still
  carries the unrecognized \<^verbatim>\<open>request\<close>. The fatal error for such a request is
  raised later, by \<open>createDebugAdapterDescriptor\<close>.
\<close>

theorem resolve_unrecognized_request:
  assumes "getProp config ''request'' \<noteq> JStr ''launch''"
      and "getProp config ''request'' \<noteq> JStr ''attach''"
      and "\<not> launchedWithoutConfig config"
  shows "resolveDebugConfiguration this host folder config =
           matchDebugMode host folder (fillDefaults host config)
     \<and> ((resolveDebugConfiguration this host folder config = None) =
          (truthy (getProp config ''debugMode'') \<and>
           getProp config ''debugMode'' \<noteq> JStr ''function'' \<and>
           getProp config ''debugMode'' \<noteq> JStr ''file'' \<and>
           getProp config ''debugMode'' \<noteq> JStr ''workspace''))
     \<and> (\<forall>tag c'. resolveDebugConfiguration this host folder config = Some (tag, c') \<longrightarrow>
           tag \<noteq> AttachConfiguration \<and>
           getProp c' ''request'' = getProp config ''request'' \<and>
           getProp c' ''debugMode'' =
             JStr (case tag of FunctionDebugConfiguration \<Rightarrow> ''function''
                   | FileDebugConfiguration \<Rightarrow> ''file'' | _ \<Rightarrow> ''workspace''))"
proof -
  have req: "getProp (fillDefaults host config) ''request'' \<noteq> JStr ''launch''"
            "getProp (fillDefaults host config) ''request'' \<noteq> JStr ''attach''"
    using assms(1,2) by (simp_all add: getProp_fillDefaults)
  have skip: "fillCapabilities this (fillDefaults host config) = fillDefaults host config"
    using req by (rule fillCapabilities_other)
  have 1: "resolveDebugConfiguration this host folder config =
             matchDebugMode host folder (fillDefaults host config)"
    using assms(3) by (simp add: resolve_with_config skip)
  have 2: "(resolveDebugConfiguration this host folder config = None) =
          (truthy (getProp config ''debugMode'') \<and>
           getProp config ''debugMode'' \<noteq> JStr ''function'' \<and>
           getProp config ''debugMode'' \<noteq> JStr ''file'' \<and>
           getProp config ''debugMode'' \<noteq> JStr ''workspace'')"
    using assms(3,2) by (rule resolve_not_attach)
  have 3: "tag \<noteq> AttachConfiguration \<and>
           getProp c' ''request'' = getProp config ''request'' \<and>
           getProp c' ''debugMode'' =
             JStr (case tag of FunctionDebugConfiguration \<Rightarrow> ''function''
                   | FileDebugConfiguration \<Rightarrow> ''file'' | _ \<Rightarrow> ''workspace'')"
    if r: "resolveDebugConfiguration this host folder config = Some (tag, c')" for tag c'
  proof -
    note f = resolve_Some_fields [OF assms(3,2) r]
    have "map_of c' ''request'' = map_of config ''request''"
      by (simp add: f(3) skip map_of_fillDefaults)
    then have "getProp c' ''request'' = getProp config ''request''"
      by (rule getProp_cong)
    with f(1,2) show ?thesis by simp
  qed
  show ?thesis using 1 2 3 by blast
qed

theorem resolve_unrecognized_request_witness:
  "getProp [(''type'', JStr ''R-Debugger''), (''request'', JStr ''restart''),
            (''name'', JStr ''x'')] ''request'' \<noteq> JStr ''launch''
   \<and> getProp [(''type'', JStr ''R-Debugger''), (''request'', JStr ''restart''),
            (''name'', JStr ''x'')] ''request'' \<noteq> JStr ''attach''
   \<and> \<not> launchedWithoutConfig [(''type'', JStr ''R-Debugger''), (''request'', JStr ''restart''),
            (''name'', JStr ''x'')]
   \<and> (\<exists>c'. resolveDebugConfiguration exampleResolver noEditor None
          [(''type'', JStr ''R-Debugger''), (''request'', JStr ''restart''),
           (''name'', JStr ''x'')]
        = Some (WorkspaceDebugConfiguration, c')
      \<and> getProp c' ''request'' = JStr ''restart''
      \<and> getProp c' ''debugMode'' = JStr ''workspace'')"
proof -
  let ?cfg = "[(''type'', JStr ''R-Debugger''), (''request'', JStr ''restart''),
            (''name'', JStr ''x'')]"
  have h: "getProp ?cfg ''request'' \<noteq> JStr ''launch''"
          "getProp ?cfg ''request'' \<noteq> JStr ''attach''"
          "\<not> launchedWithoutConfig ?cfg"
    by (simp_all add: getProp_def launchedWithoutConfig_def)
  have r: "resolveDebugConfiguration exampleResolver noEditor None ?cfg
     = Some (WorkspaceDebugConfiguration,
         [(''type'', JStr ''R-Debugger''), (''request'', JStr ''restart''),
          (''name'', JStr ''x''), (''debugMode'', JStr ''workspace''),
          (''allowGlobalDebugging'', JBool True),
          (''workingDirectory'', JStr ''.'')])"
    by code_simp
  note t = resolve_unrecognized_request [OF h, of exampleResolver noEditor None]
  show ?thesis
    using t [THEN conjunct2, THEN conjunct2, rule_format, OF r] h r
    by (simp add: getProp_def)
qed

text \<open>The claim C1 as stated, that resolution returns no ordinary tagged configuration
  for an unrecognized \<^verbatim>\<open>request\<close>, fails: \<^verbatim>\<open>request = "restart"\<close> resolves
  to a workspace configuration.\<close>

theorem resolve_unrecognized_request_counterexample:
  "resolveDebugConfiguration exampleResolver noEditor None
     [(''type'', JStr ''R-Debugger''), (''request'', JStr ''restart''), (''name'', JStr ''x'')]
   = Some (WorkspaceDebugConfiguration,
       [(''type'', JStr ''R-Debugger''), (''request'', JStr ''restart''),
        (''name'', JStr ''x''), (''debugMode'', JStr ''workspace''),
        (''allowGlobalDebugging'', JBool True),
        (''workingDirectory'', JStr ''.'')])"
  by code_simp

section \<open>Resolution of an attach request\<close>

text \<open>
  C2. For every configuration with \<^verbatim>\<open>request = "attach"\<close>, whatever its
  \<^verbatim>\<open>debugMode\<close>, the resolver returns a configuration under the attach assertion,
  in which \<^verbatim>\<open>customPort\<close> is the resolver's port when the caller's value is
  undefined or null, \<^verbatim>\<open>customHost\<close> is the resolver's host when the caller's value
  is falsy (so also when unset), \<^verbatim>\<open>useCustomSocket\<close> and
  \<^verbatim>\<open>supportsWriteToStdinEvent\<close> are true when undefined or null and the caller's
  value otherwise (an explicit false is kept), and \<^verbatim>\<open>overwriteLoadAll\<close> is false
  whatever the caller supplied. Every key other than these five and the two defaulted for
  all requests passes through as it is.
\<close>

theorem resolve_attach_fields:
  assumes "getProp config ''request'' = JStr ''attach''"
  shows "\<exists>c'. resolveDebugConfiguration this host folder config = Some (AttachConfiguration, c')
     \<and> getProp c' ''customPort'' =
         (if nullish (getProp config ''customPort'') then JNum (customPort this)
          else getProp config ''customPort'')
     \<and> getProp c' ''customHost'' =
         (if truthy (getProp config ''customHost'') then getProp config ''customHost''
          else JStr (customHost this))
     \<and> getProp c' ''useCustomSocket'' =
         (if nullish (getProp config ''useCustomSocket'') then JBool True
          else getProp config ''useCustomSocket'')
     \<and> getProp c' ''supportsWriteToStdinEvent'' =
         (if nullish (getProp config ''supportsWriteToStdinEvent'') then JBool True
          else getProp config ''supportsWriteToStdinEvent'')
     \<and> getProp c' ''overwriteLoadAll'' = JBool False
     \<and> (\<forall>k. k \<notin> {''customPort'', ''customHost'', ''useCustomSocket'',
                 ''supportsWriteToStdinEvent'', ''overwriteLoadAll'',
                 ''debugMode'', ''allowGlobalDebugging''}
            \<longrightarrow> map_of c' k = map_of config k)"
proof -
  let ?c = "fillCapabilities this (fillDefaults host config)"
  have req: "getProp (fillDefaults host config) ''request'' = JStr ''attach''"
    using assms by (simp add: getProp_fillDefaults)
  note m = map_of_fillCapabilities_attach [OF req, of this]
  have "resolveDebugConfiguration this host folder config = Some (AttachConfiguration, ?c)"
    using assms by (rule resolve_attach)
  moreover have "getProp ?c ''customPort'' =
         (if nullish (getProp config ''customPort'') then JNum (customPort this)
          else getProp config ''customPort'')"
    by (rule getProp_map_of) (simp add: m getProp_fillDefaults js_coalesce_def)
  moreover have "getProp ?c ''customHost'' =
         (if truthy (getProp config ''customHost'') then getProp config ''customHost''
          else JStr (customHost this))"
    by (rule getProp_map_of) (simp add: m getProp_fillDefaults js_or_def)
  moreover have "getProp ?c ''useCustomSocket'' =
         (if nullish (getProp config ''useCustomSocket'') then JBool True
          else getProp config ''useCustomSocket'')"
    by (rule getProp_map_of) (simp add: m getProp_fillDefaults js_coalesce_def)
  moreover have "getProp ?c ''supportsWriteToStdinEvent'' =
         (if nullish (getProp config ''supportsWriteToStdinEvent'') then JBool True
          else getProp config ''supportsWriteToStdinEvent'')"
    by (rule getProp_map_of) (simp add: m getProp_fillDefaults js_coalesce_def)
  moreover have "getProp ?c ''overwriteLoadAll'' = JBool False"
    by (rule getProp_map_of) (simp add: m)
  moreover have "\<forall>k. k \<notin> {''customPort'', ''customHost'', ''useCustomSocket'',
                 ''supportsWriteToStdinEvent'', ''overwriteLoadAll'',
                 ''debugMode'', ''allowGlobalDebugging''}
            \<longrightarrow> map_of ?c k = map_of config k"
    by (simp add: m map_of_fillDefaults)
  ultimately show ?thesis by blast
qed

theorem resolve_attach_fields_witness:
  "getProp [(''type'', JStr ''R-Debugger''), (''request'', JStr ''attach''),
            (''name'', JStr ''Attach to R process''), (''debugMode'', JStr ''invalid''),
            (''useCustomSocket'', JBool False), (''overwriteLoadAll'', JBool True)]
     ''request'' = JStr ''attach''
   \<and> (\<exists>c'. resolveDebugConfiguration exampleResolver noEditor None
          [(''type'', JStr ''R-Debugger''), (''request'', JStr ''attach''),
           (''name'', JStr ''Attach to R process''), (''debugMode'', JStr ''invalid''),
           (''useCustomSocket'', JBool False), (''overwriteLoadAll'', JBool True)]
        = Some (AttachConfiguration, c')
      \<and> getProp c' ''customPort'' = JNum 5000
      \<and> getProp c' ''customHost'' = JStr ''localhost''
      \<and> getProp c' ''useCustomSocket'' = JBool False
      \<and> getProp c' ''supportsWriteToStdinEvent'' = JBool True
      \<and> getProp c' ''overwriteLoadAll'' = JBool False)"
proof -
  let ?cfg = "[(''type'', JStr ''R-Debugger''), (''request'', JStr ''attach''),
            (''name'', JStr ''Attach to R process''), (''debugMode'', JStr ''invalid''),
            (''useCustomSocket'', JBool False), (''overwriteLoadAll'', JBool True)]"
  have h: "getProp ?cfg ''request'' = JStr ''attach''"
    by (simp add: getProp_def)
  have vals: "getProp ?cfg ''customPort'' = JUndefined"
    "getProp ?cfg ''customHost'' = JUndefined"
    "getProp ?cfg ''useCustomSocket'' = JBool False"
    "getProp ?cfg ''supportsWriteToStdinEvent'' = JUndefined"
    by (simp_all add: getProp_def)
  show ?thesis
    using resolve_attach_fields [OF h, of exampleResolver noEditor None] h
    by (auto simp: vals exampleResolver_def)
qed

text \<open>
  C10. Unset detection differs between the two socket fields of the attach branch.
  \<^verbatim>\<open>customPort\<close> is replaced by the resolver's port only when it is undefined or
  null (line 293 uses \<^verbatim>\<open>??\<close>) and is kept otherwise, so a port of 0 is kept.
  \<^verbatim>\<open>customHost\<close> is replaced by the resolver's host whenever it is falsy (line 294
  uses \<^verbatim>\<open>||\<close>) and is kept otherwise, so an empty host is replaced.
\<close>

theorem resolve_attach_unset_detection:
  assumes "getProp config ''request'' = JStr ''attach''"
  shows "\<exists>c'. resolveDebugConfiguration this host folder config = Some (AttachConfiguration, c')
     \<and> getProp c' ''customPort'' =
         (if getProp config ''customPort'' = JUndefined \<or> getProp config ''customPort'' = JNull
          then JNum (customPort this) else getProp config ''customPort'')
     \<and> getProp c' ''customHost'' =
         (if truthy (getProp config ''customHost'') then getProp config ''customHost''
          else JStr (customHost this))
     \<and> (getProp config ''customPort'' = JNum 0 \<longrightarrow> getProp c' ''customPort'' = JNum 0)
     \<and> (getProp config ''customHost'' = JStr '''' \<longrightarrow>
          getProp c' ''customHost'' = JStr (customHost this))"
proof -
  let ?c = "fillCapabilities this (fillDefaults host config)"
  have req: "getProp (fillDefaults host config) ''request'' = JStr ''attach''"
    using assms by (simp add: getProp_fillDefaults)
  note m = map_of_fillCapabilities_attach [OF req, of this]
  have n: "nullish v = (v = JUndefined \<or> v = JNull)" for v
    by (cases v) simp_all
  have 0: "resolveDebugConfiguration this host folder config = Some (AttachConfiguration, ?c)"
    using assms by (rule resolve_attach)
  have 1: "getProp ?c ''customPort'' =
         (if getProp config ''customPort'' = JUndefined \<or> getProp config ''customPort'' = JNull
          then JNum (customPort this) else getProp config ''customPort'')"
    by (rule getProp_map_of) (simp add: m getProp_fillDefaults js_coalesce_def n)
  have 2: "getProp ?c ''customHost'' =
         (if truthy (getProp config ''customHost'') then getProp config ''customHost''
          else JStr (customHost this))"
    by (rule getProp_map_of) (simp add: m getProp_fillDefaults js_or_def)
  have 3: "getProp ?c ''customPort'' = JNum 0" if "getProp config ''customPort'' = JNum 0"
    using that by (simp add: 1)
  have 4: "getProp ?c ''customHost'' = JStr (customHost this)"
    if "getProp config ''customHost'' = JStr ''''"
    using that by (simp add: 2)
  show ?thesis using 0 1 2 3 4 by blast
qed

theorem resolve_attach_unset_detection_witness:
  "getProp [(''type'', JStr ''R-Debugger''), (''request'', JStr ''attach''),
            (''customPort'', JNum 0), (''customHost'', JStr '''')]
     ''request'' = JStr ''attach''
   \<and> getProp [(''type'', JStr ''R-Debugger''), (''request'', JStr ''attach''),
            (''customPort'', JNull)]
     ''request'' = JStr ''attach''
   \<and> (\<exists>c'. resolveDebugConfiguration exampleResolver noEditor None
          [(''type'', JStr ''R-Debugger''), (''request'', JStr ''attach''),
           (''customPort'', JNum 0), (''customHost'', JStr '''')]
        = Some (AttachConfiguration, c')
      \<and> getProp c' ''customPort'' = JNum 0
      \<and> getProp c' ''customHost'' = JStr ''localhost'')
   \<and> (\<exists>c'. resolveDebugConfiguration exampleResolver noEditor None
          [(''type'', JStr ''R-Debugger''), (''request'', JStr ''attach''),
           (''customPort'', JNull)]
        = Some (AttachConfiguration, c')
      \<and> getProp c' ''customPort'' = JNum 5000
      \<and> getProp c' ''customHost'' = JStr ''localhost'')"
proof -
  let ?a = "[(''type'', JStr ''R-Debugger''), (''request'', JStr ''attach''),
            (''customPort'', JNum 0), (''customHost'', JStr '''')]"
  let ?b = "[(''type'', JStr ''R-Debugger''), (''request'', JStr ''attach''),
            (''customPort'', JNull)]"
  have h: "getProp ?a ''request'' = JStr ''attach''" "getProp ?b ''request'' = JStr ''attach''"
    by (simp_all add: getProp_def)
  have vals: "getProp ?a ''customPort'' = JNum 0" "getProp ?a ''customHost'' = JStr ''''"
    "getProp ?b ''customPort'' = JNull" "getProp ?b ''customHost'' = JUndefined"
    by (simp_all add: getProp_def)
  show ?thesis
    using resolve_attach_unset_detection [OF h(1), of exampleResolver noEditor None]
      resolve_attach_unset_detection [OF h(2), of exampleResolver noEditor None] h
    by (auto simp: vals exampleResolver_def)
qed

section \<open>Resolution of a launch request\<close>

text \<open>
  C3, as the code has it. For every configuration with \<^verbatim>\<open>request = "launch"\<close>
  that resolves, the result has \<^verbatim>\<open>supportsStdoutReading\<close>,
  \<^verbatim>\<open>supportsWriteToStdinEvent\<close> and \<^verbatim>\<open>supportsShowingPromptRequest\<close> true
  whatever the caller supplied, and its \<^verbatim>\<open>overwriteHelp\<close> is the caller's value
  (true when undefined or null) combined by \<^verbatim>\<open>&&\<close> with the resolver's
  \<^verbatim>\<open>supportsHelpViewer\<close>. So it is \<^verbatim>\<open>supportsHelpViewer\<close> for an unset or
  truthy caller's value, the conjunction of the two booleans for a boolean one (hence
  false without help viewer), and the caller's value itself when that is falsy and
  neither undefined nor null; without help viewer it is falsy in every case.
\<close>

theorem resolve_launch_capabilities:
  assumes "getProp config ''request'' = JStr ''launch''"
      and "resolveDebugConfiguration this host folder config = Some (tag, c')"
  shows "getProp c' ''supportsStdoutReading'' = JBool True
     \<and> getProp c' ''supportsWriteToStdinEvent'' = JBool True
     \<and> getProp c' ''supportsShowingPromptRequest'' = JBool True
     \<and> getProp c' ''overwriteHelp'' =
         js_and (js_coalesce (getProp config ''overwriteHelp'') (JBool True))
           (JBool (supportsHelpViewer this))
     \<and> (nullish (getProp config ''overwriteHelp'') \<longrightarrow>
          getProp c' ''overwriteHelp'' = JBool (supportsHelpViewer this))
     \<and> (\<forall>b. getProp config ''overwriteHelp'' = JBool b \<longrightarrow>
          getProp c' ''overwriteHelp'' = JBool (b \<and> supportsHelpViewer this))
     \<and> (\<not> supportsHelpViewer this \<longrightarrow> \<not> truthy (getProp c' ''overwriteHelp''))
     \<and> (truthy (getProp config ''overwriteHelp'') \<longrightarrow>
          getProp c' ''overwriteHelp'' = JBool (supportsHelpViewer this))
     \<and> (\<not> truthy (getProp config ''overwriteHelp'') \<and>
          \<not> nullish (getProp config ''overwriteHelp'') \<longrightarrow>
          getProp c' ''overwriteHelp'' = getProp config ''overwriteHelp'')"
proof -
  have nc: "\<not> launchedWithoutConfig config"
    using assms(1) by (simp add: not_launchedWithoutConfig)
  have na: "getProp config ''request'' \<noteq> JStr ''attach''"
    using assms(1) by simp
  have req: "getProp (fillDefaults host config) ''request'' = JStr ''launch''"
    using assms(1) by (simp add: getProp_fillDefaults)
  note m = map_of_fillCapabilities_launch [OF req, of this]
  note f = resolve_Some_fields(3) [OF nc na assms(2)]
  have 1: "getProp c' ''supportsStdoutReading'' = JBool True"
    by (rule getProp_map_of) (simp add: f m)
  have 2: "getProp c' ''supportsWriteToStdinEvent'' = JBool True"
    by (rule getProp_map_of) (simp add: f m)
  have 3: "getProp c' ''supportsShowingPromptRequest'' = JBool True"
    by (rule getProp_map_of) (simp add: f m)
  have 4: "getProp c' ''overwriteHelp'' =
         js_and (js_coalesce (getProp config ''overwriteHelp'') (JBool True))
           (JBool (supportsHelpViewer this))"
    by (rule getProp_map_of) (simp add: f m getProp_fillDefaults)
  have 5: "getProp c' ''overwriteHelp'' = JBool (supportsHelpViewer this)"
    if "nullish (getProp config ''overwriteHelp'')"
    using that by (simp add: 4 js_and_def js_coalesce_def)
  have 6: "getProp c' ''overwriteHelp'' = JBool (b \<and> supportsHelpViewer this)"
    if "getProp config ''overwriteHelp'' = JBool b" for b
    using that by (simp add: 4 js_and_def js_coalesce_def)
  have 7: "\<not> truthy (getProp c' ''overwriteHelp'')" if "\<not> supportsHelpViewer this"
    using that by (simp add: 4 js_and_def)
  have 8: "getProp c' ''overwriteHelp'' = JBool (supportsHelpViewer this)"
    if "truthy (getProp config ''overwriteHelp'')"
    using that by (cases "getProp config ''overwriteHelp''") (simp_all add: 4 js_and_def js_coalesce_def)
  have 9: "getProp c' ''overwriteHelp'' = getProp config ''overwriteHelp''"
    if "\<not> truthy (getProp config ''overwriteHelp'')"
       "\<not> nullish (getProp config ''overwriteHelp'')"
    using that by (simp add: 4 js_and_def js_coalesce_def)
  show ?thesis using 1 2 3 4 5 6 7 8 9 by blast
qed

theorem resolve_launch_capabilities_witness:
  "getProp [(''type'', JStr ''R-Debugger''), (''request'', JStr ''launch''),
            (''name'', JStr ''x''), (''debugMode'', JStr ''file''),
            (''supportsStdoutReading'', JBool False),
            (''supportsWriteToStdinEvent'', JBool False),
            (''supportsShowingPromptRequest'', JBool False),
            (''overwriteHelp'', JBool True)] ''request'' = JStr ''launch''
   \<and> (\<exists>c'. resolveDebugConfiguration exampleResolver fileEditor None
          [(''type'', JStr ''R-Debugger''), (''request'', JStr ''launch''),
           (''name'', JStr ''x''), (''debugMode'', JStr ''file''),
           (''supportsStdoutReading'', JBool False),
           (''supportsWriteToStdinEvent'', JBool False),
           (''supportsShowingPromptRequest'', JBool False),
           (''overwriteHelp'', JBool True)]
        = Some (FileDebugConfiguration, c')
      \<and> getProp c' ''supportsStdoutReading'' = JBool True
      \<and> getProp c' ''supportsWriteToStdinEvent'' = JBool True
      \<and> getProp c' ''supportsShowingPromptRequest'' = JBool True
      \<and> getProp c' ''overwriteHelp'' = JBool False)"
proof -
  let ?cfg = "[(''type'', JStr ''R-Debugger''), (''request'', JStr ''launch''),
           (''name'', JStr ''x''), (''debugMode'', JStr ''file''),
           (''supportsStdoutReading'', JBool False),
           (''supportsWriteToStdinEvent'', JBool False),
           (''supportsShowingPromptRequest'', JBool False),
           (''overwriteHelp'', JBool True)]"
  have h: "getProp ?cfg ''request'' = JStr ''launch''"
    by (simp add: getProp_def)
  let ?res = "[(''type'', JStr ''R-Debugger''), (''request'', JStr ''launch''),
           (''name'', JStr ''x''), (''debugMode'', JStr ''file''),
           (''supportsStdoutReading'', JBool True),
           (''supportsWriteToStdinEvent'', JBool True),
           (''supportsShowingPromptRequest'', JBool True),
           (''overwriteHelp'', JBool False),
           (''allowGlobalDebugging'', JBool True),
           (''workingDirectory'', JStr ''${fileDirname}''),
           (''file'', JStr ''${file}'')]"
  have r: "resolveDebugConfiguration exampleResolver fileEditor None ?cfg
      = Some (FileDebugConfiguration, ?res)"
    by code_simp
  have v: "getProp ?cfg ''overwriteHelp'' = JBool True"
    "supportsHelpViewer exampleResolver = False"
    by (simp_all add: getProp_def exampleResolver_def)
  note t = resolve_launch_capabilities [OF h r]
  have "getProp ?res ''supportsStdoutReading'' = JBool True"
    "getProp ?res ''supportsWriteToStdinEvent'' = JBool True"
    "getProp ?res ''supportsShowingPromptRequest'' = JBool True"
    "getProp ?res ''overwriteHelp'' = JBool False"
    using t [THEN conjunct1] t [THEN conjunct2, THEN conjunct1]
      t [THEN conjunct2, THEN conjunct2, THEN conjunct1]
      t [THEN conjunct2, THEN conjunct2, THEN conjunct2, THEN conjunct1]
    by (simp_all add: v js_and_def js_coalesce_def)
  with h r show ?thesis by simp
qed

text \<open>The claim C3 as stated, that \<^verbatim>\<open>overwriteHelp\<close> is false whenever there is no
  help viewer, fails for a caller's value of 0: lines 289 and 290 keep the 0.\<close>

theorem resolve_launch_overwriteHelp_counterexample:
  "supportsHelpViewer exampleResolver = False
   \<and> resolveDebugConfiguration exampleResolver noEditor None
        [(''type'', JStr ''R-Debugger''), (''request'', JStr ''launch''),
         (''name'', JStr ''x''), (''overwriteHelp'', JNum 0)]
      = Some (WorkspaceDebugConfiguration,
          [(''type'', JStr ''R-Debugger''), (''request'', JStr ''launch''),
           (''name'', JStr ''x''), (''overwriteHelp'', JNum 0),
           (''debugMode'', JStr ''workspace''),
           (''allowGlobalDebugging'', JBool True),
           (''supportsStdoutReading'', JBool True),
           (''supportsWriteToStdinEvent'', JBool True),
           (''supportsShowingPromptRequest'', JBool True),
           (''workingDirectory'', JStr ''.'')])"
  by code_simp

lemma resolve_defaulted_debugMode:
  assumes "\<not> launchedWithoutConfig config"
      and "getProp config ''request'' \<noteq> JStr ''attach''"
      and "\<not> truthy (getProp config ''debugMode'')"
  shows "\<exists>c'. resolveDebugConfiguration this host folder config =
            Some (if docValid host then FileDebugConfiguration
                  else WorkspaceDebugConfiguration, c')
     \<and> getProp c' ''debugMode'' = JStr (if docValid host then ''file'' else ''workspace'')"
proof -
  let ?c = "fillCapabilities this (fillDefaults host config)"
  have "resolveDebugConfiguration this host folder config \<noteq> None"
    using assms by (simp add: resolve_not_attach)
  then obtain tag c' where r: "resolveDebugConfiguration this host folder config = Some (tag, c')"
    by auto
  note f = resolve_Some_fields [OF assms(1,2) r]
  have "getProp c' ''debugMode'' = getProp ?c ''debugMode''"
    by (rule getProp_cong) (simp add: f(3))
  then have d: "getProp c' ''debugMode'' = JStr (if docValid host then ''file'' else ''workspace'')"
    using assms(3) by (simp add: getProp_fillCapabilities_debugMode getProp_fillDefaults js_or_def)
  have "tag = (if docValid host then FileDebugConfiguration else WorkspaceDebugConfiguration)"
    using f(1,2) d by (cases tag) (simp_all split: if_splits)
  with r d show ?thesis by blast
qed

text \<open>
  C5, as the code has it. For every configuration with \<^verbatim>\<open>request = "launch"\<close>:
  when \<^verbatim>\<open>debugMode\<close> is truthy (a non-empty string, say) and none of
  \<^verbatim>\<open>"function"\<close>, \<^verbatim>\<open>"file"\<close>, \<^verbatim>\<open>"workspace"\<close>, the resolver returns
  \<^verbatim>\<open>null\<close>; when \<^verbatim>\<open>debugMode\<close> is falsy (the empty string, say), line 279
  replaces it by the default mode and the resolver returns a configuration of that mode,
  a file configuration with a file document open and a workspace configuration without.
  The resolver has no failing path.
\<close>

theorem resolve_launch_unrecognized_debugMode:
  assumes "getProp config ''request'' = JStr ''launch''"
  shows "(truthy (getProp config ''debugMode'') \<and>
          getProp config ''debugMode'' \<noteq> JStr ''function'' \<and>
          getProp config ''debugMode'' \<noteq> JStr ''file'' \<and>
          getProp config ''debugMode'' \<noteq> JStr ''workspace''
          \<longrightarrow> resolveDebugConfiguration this host folder config = None)
     \<and> (\<not> truthy (getProp config ''debugMode'')
          \<longrightarrow> (\<exists>c'. resolveDebugConfiguration this host folder config =
                    Some (if docValid host then FileDebugConfiguration
                          else WorkspaceDebugConfiguration, c')
                 \<and> getProp c' ''debugMode'' =
                     JStr (if docValid host then ''file'' else ''workspace'')))"
proof -
  have nc: "\<not> launchedWithoutConfig config"
    using assms by (simp add: not_launchedWithoutConfig)
  have na: "getProp config ''request'' \<noteq> JStr ''attach''"
    using assms by simp
  show ?thesis
    using resolve_not_attach [OF nc na, of this host folder]
      resolve_defaulted_debugMode [OF nc na, of this host folder]
    by blast
qed

theorem resolve_launch_unrecognized_debugMode_witness:
  "getProp [(''type'', JStr ''R-Debugger''), (''request'', JStr ''launch''),
            (''name'', JStr ''x''), (''debugMode'', JStr ''invalid'')] ''request''
     = JStr ''launch''
   \<and> getProp [(''type'', JStr ''R-Debugger''), (''request'', JStr ''launch''),
            (''name'', JStr ''x''), (''debugMode'', JStr '''')] ''request''
     = JStr ''launch''
   \<and> resolveDebugConfiguration exampleResolver noEditor None
        [(''type'', JStr ''R-Debugger''), (''request'', JStr ''launch''),
         (''name'', JStr ''x''), (''debugMode'', JStr ''invalid'')] = None
   \<and> (\<exists>c'. resolveDebugConfiguration exampleResolver fileEditor None
          [(''type'', JStr ''R-Debugger''), (''request'', JStr ''launch''),
           (''name'', JStr ''x''), (''debugMode'', JStr '''')]
        = Some (FileDebugConfiguration, c')
      \<and> getProp c' ''debugMode'' = JStr ''file'')
   \<and> (\<exists>c'. resolveDebugConfiguration exampleResolver noEditor None
          [(''type'', JStr ''R-Debugger''), (''request'', JStr ''launch''),
           (''name'', JStr ''x''), (''debugMode'', JStr '''')]
        = Some (WorkspaceDebugConfiguration, c')
      \<and> getProp c' ''debugMode'' = JStr ''workspace'')"
proof -
  let ?a = "[(''type'', JStr ''R-Debugger''), (''request'', JStr ''launch''),
            (''name'', JStr ''x''), (''debugMode'', JStr ''invalid'')]"
  let ?b = "[(''type'', JStr ''R-Debugger''), (''request'', JStr ''launch''),
            (''name'', JStr ''x''), (''debugMode'', JStr '''')]"
  have h: "getProp ?a ''request'' = JStr ''launch''" "getProp ?b ''request'' = JStr ''launch''"
    by (simp_all add: getProp_def)
  have vals: "getProp ?a ''debugMode'' = JStr ''invalid''" "getProp ?b ''debugMode'' = JStr ''''"
    "docValid fileEditor" "\<not> docValid noEditor"
    by (simp_all add: getProp_def docValid_def fileEditor_def noEditor_def)
  show ?thesis
    using resolve_launch_unrecognized_debugMode [OF h(1), of exampleResolver noEditor None]
      resolve_launch_unrecognized_debugMode [OF h(2), of exampleResolver fileEditor None]
      resolve_launch_unrecognized_debugMode [OF h(2), of exampleResolver noEditor None] h
    by (simp add: vals)
qed

text \<open>The claim C5 as stated, for every \<^verbatim>\<open>debugMode\<close> that is set and none of the
  three modes, fails for the empty string: line 279 replaces it by the default mode, and
  the configuration resolves.\<close>

theorem resolve_launch_empty_debugMode_counterexample:
  "resolveDebugConfiguration exampleResolver noEditor None
     [(''type'', JStr ''R-Debugger''), (''request'', JStr ''launch''),
      (''name'', JStr ''x''), (''debugMode'', JStr '''')]
   = Some (WorkspaceDebugConfiguration,
       [(''type'', JStr ''R-Debugger''), (''request'', JStr ''launch''),
        (''name'', JStr ''x''), (''debugMode'', JStr ''workspace''),
        (''allowGlobalDebugging'', JBool True),
        (''supportsStdoutReading'', JBool True),
        (''supportsWriteToStdinEvent'', JBool True),
        (''supportsShowingPromptRequest'', JBool True),
        (''overwriteHelp'', JBool False), (''workingDirectory'', JStr ''.'')])"
  by code_simp

text \<open>
  C6, as the code has it. A configuration in strict function form
  (\<^verbatim>\<open>request = "launch"\<close>, \<^verbatim>\<open>debugMode = "function"\<close>, truthy
  \<^verbatim>\<open>workingDirectory\<close>, \<^verbatim>\<open>file\<close> and \<^verbatim>\<open>mainFunction\<close>) resolves to a
  function configuration that agrees with it on every key but five: the three capability
  flags, which are true, \<^verbatim>\<open>overwriteHelp\<close>, which is gated by the help viewer, and
  \<^verbatim>\<open>allowGlobalDebugging\<close>, which is true when the caller left it undefined or null
  and the caller's value otherwise.
\<close>

theorem resolve_strict_function:
  assumes "getProp config ''request'' = JStr ''launch''"
      and "getProp config ''debugMode'' = JStr ''function''"
      and "truthy (getProp config ''workingDirectory'')"
      and "truthy (getProp config ''file'')"
      and "truthy (getProp config ''mainFunction'')"
  shows "\<exists>c'. resolveDebugConfiguration this host folder config =
            Some (FunctionDebugConfiguration, c')
     \<and> (\<forall>k. k \<notin> {''supportsStdoutReading'', ''supportsWriteToStdinEvent'',
                 ''supportsShowingPromptRequest'', ''overwriteHelp'',
                 ''allowGlobalDebugging''}
            \<longrightarrow> map_of c' k = map_of config k)
     \<and> getProp c' ''allowGlobalDebugging'' =
         (if nullish (getProp config ''allowGlobalDebugging'') then JBool True
          else getProp config ''allowGlobalDebugging'')
     \<and> getProp c' ''supportsStdoutReading'' = JBool True
     \<and> getProp c' ''supportsWriteToStdinEvent'' = JBool True
     \<and> getProp c' ''supportsShowingPromptRequest'' = JBool True
     \<and> getProp c' ''overwriteHelp'' =
         js_and (js_coalesce (getProp config ''overwriteHelp'') (JBool True))
           (JBool (supportsHelpViewer this))"
proof -
  let ?c = "fillCapabilities this (fillDefaults host config)"
  have nc: "\<not> launchedWithoutConfig config"
    using assms(1) by (simp add: not_launchedWithoutConfig)
  have req: "getProp (fillDefaults host config) ''request'' = JStr ''launch''"
    using assms(1) by (simp add: getProp_fillDefaults)
  note m = map_of_fillCapabilities_launch [OF req, of this]
  have g: "getProp ?c k = getProp (fillDefaults host config) k"
    if "k \<noteq> ''overwriteHelp''" "k \<noteq> ''supportsStdoutReading''"
       "k \<noteq> ''supportsWriteToStdinEvent''" "k \<noteq> ''supportsShowingPromptRequest''" for k
    by (rule getProp_cong) (simp add: m that)
  have na: "getProp ?c ''request'' \<noteq> JStr ''attach''"
    using assms(1) by (simp add: getProp_fillCapabilities_request getProp_fillDefaults)
  have dm: "getProp ?c ''debugMode'' = JStr ''function''"
    using assms(2) by (simp add: getProp_fillCapabilities_debugMode getProp_fillDefaults js_or_def)
  from matchDebugMode_function [OF na dm, of host folder]
  obtain c' where r: "matchDebugMode host folder ?c = Some (FunctionDebugConfiguration, c')"
    and f: "\<And>k. map_of c' k =
        (if k = ''mainFunction''
         then Some (js_or (getProp ?c ''mainFunction'') (JStr ''main''))
         else if k = ''file''
         then Some (js_or (getProp ?c ''file'') (JStr ''${file}''))
         else if k = ''workingDirectory''
         then Some (js_or (getProp ?c ''workingDirectory'') (JStr (wd host folder)))
         else map_of ?c k)"
    by blast
  have kept: "map_of config ''workingDirectory'' = Some (getProp config ''workingDirectory'')"
    "map_of config ''file'' = Some (getProp config ''file'')"
    "map_of config ''mainFunction'' = Some (getProp config ''mainFunction'')"
    "map_of config ''debugMode'' = Some (JStr ''function'')"
    using assms(2-5) by (simp_all add: getProp_Some getProp_eq_Some)
  have 0: "resolveDebugConfiguration this host folder config =
             Some (FunctionDebugConfiguration, c')"
    using nc r by (simp add: resolve_with_config)
  have 1: "map_of c' k = map_of config k"
    if "k \<notin> {''supportsStdoutReading'', ''supportsWriteToStdinEvent'',
                 ''supportsShowingPromptRequest'', ''overwriteHelp'',
                 ''allowGlobalDebugging''}" for k
    using that assms(2-5)
    by (simp add: f g m getProp_fillDefaults map_of_fillDefaults js_or_def kept)
  have 2: "getProp c' ''allowGlobalDebugging'' =
         (if nullish (getProp config ''allowGlobalDebugging'') then JBool True
          else getProp config ''allowGlobalDebugging'')"
    by (rule getProp_map_of) (simp add: f m map_of_fillDefaults js_coalesce_def)
  have 3: "getProp c' ''supportsStdoutReading'' = JBool True"
    by (rule getProp_map_of) (simp add: f m)
  have 4: "getProp c' ''supportsWriteToStdinEvent'' = JBool True"
    by (rule getProp_map_of) (simp add: f m)
  have 5: "getProp c' ''supportsShowingPromptRequest'' = JBool True"
    by (rule getProp_map_of) (simp add: f m)
  have 6: "getProp c' ''overwriteHelp'' =
         js_and (js_coalesce (getProp config ''overwriteHelp'') (JBool True))
           (JBool (supportsHelpViewer this))"
    by (rule getProp_map_of) (simp add: f m getProp_fillDefaults)
  show ?thesis using 0 1 2 3 4 5 6 by blast
qed

theorem resolve_strict_function_witness:
  "getProp [(''type'', JStr ''R-Debugger''), (''name'', JStr ''Debug R-Function''),
            (''request'', JStr ''launch''), (''debugMode'', JStr ''function''),
            (''workingDirectory'', JStr ''/work''), (''file'', JStr ''/work/a.R''),
            (''mainFunction'', JStr ''run''), (''allowGlobalDebugging'', JBool False)]
     ''request'' = JStr ''launch''
   \<and> getProp [(''type'', JStr ''R-Debugger''), (''name'', JStr ''Debug R-Function''),
            (''request'', JStr ''launch''), (''debugMode'', JStr ''function''),
            (''workingDirectory'', JStr ''/work''), (''file'', JStr ''/work/a.R''),
            (''mainFunction'', JStr ''run''), (''allowGlobalDebugging'', JBool False)]
     ''debugMode'' = JStr ''function''
   \<and> (\<exists>c'. resolveDebugConfiguration exampleResolver fileEditor (Some pkgFolder)
          [(''type'', JStr ''R-Debugger''), (''name'', JStr ''Debug R-Function''),
           (''request'', JStr ''launch''), (''debugMode'', JStr ''function''),
           (''workingDirectory'', JStr ''/work''), (''file'', JStr ''/work/a.R''),
           (''mainFunction'', JStr ''run''), (''allowGlobalDebugging'', JBool False)]
        = Some (FunctionDebugConfiguration, c')
      \<and> map_of c' ''workingDirectory'' = Some (JStr ''/work'')
      \<and> map_of c' ''file'' = Some (JStr ''/work/a.R'')
      \<and> map_of c' ''mainFunction'' = Some (JStr ''run'')
      \<and> map_of c' ''commandLineArgs'' = None
      \<and> getProp c' ''allowGlobalDebugging'' = JBool False
      \<and> getProp c' ''supportsStdoutReading'' = JBool True
      \<and> getProp c' ''overwriteHelp'' = JBool False)"
proof -
  let ?cfg = "[(''type'', JStr ''R-Debugger''), (''name'', JStr ''Debug R-Function''),
           (''request'', JStr ''launch''), (''debugMode'', JStr ''function''),
           (''workingDirectory'', JStr ''/work''), (''file'', JStr ''/work/a.R''),
           (''mainFunction'', JStr ''run''), (''allowGlobalDebugging'', JBool False)]"
  have h: "getProp ?cfg ''request'' = JStr ''launch''"
    "getProp ?cfg ''debugMode'' = JStr ''function''"
    "truthy (getProp ?cfg ''workingDirectory'')"
    "truthy (getProp ?cfg ''file'')"
    "truthy (getProp ?cfg ''mainFunction'')"
    by (simp_all add: getProp_def)
  have v: "getProp ?cfg ''allowGlobalDebugging'' = JBool False"
    "getProp ?cfg ''overwriteHelp'' = JUndefined"
    "supportsHelpViewer exampleResolver = False"
    by (simp_all add: getProp_def exampleResolver_def)
  from resolve_strict_function [OF h, of exampleResolver fileEditor "Some pkgFolder"]
  obtain c' where r: "resolveDebugConfiguration exampleResolver fileEditor (Some pkgFolder) ?cfg
        = Some (FunctionDebugConfiguration, c')"
    and same: "\<And>k. k \<notin> {''supportsStdoutReading'', ''supportsWriteToStdinEvent'',
                 ''supportsShowingPromptRequest'', ''overwriteHelp'',
                 ''allowGlobalDebugging''}
            \<Longrightarrow> map_of c' k = map_of ?cfg k"
    and rest: "getProp c' ''allowGlobalDebugging'' = JBool False"
      "getProp c' ''supportsStdoutReading'' = JBool True"
      "getProp c' ''overwriteHelp'' = JBool False"
    by (auto simp: v js_and_def js_coalesce_def)
  have "map_of c' ''workingDirectory'' = Some (JStr ''/work'')"
    "map_of c' ''file'' = Some (JStr ''/work/a.R'')"
    "map_of c' ''mainFunction'' = Some (JStr ''run'')"
    "map_of c' ''commandLineArgs'' = None"
    by (simp_all add: same)
  with r rest h show ?thesis by blast
qed

text \<open>The claim C6 as stated, that only the three capability flags and
  \<^verbatim>\<open>overwriteHelp\<close> may differ, fails for a strict configuration without
  \<^verbatim>\<open>allowGlobalDebugging\<close>: line 280 adds it.\<close>

theorem resolve_strict_function_counterexample:
  "getProp [(''type'', JStr ''R-Debugger''), (''name'', JStr ''Debug R-Function''),
            (''request'', JStr ''launch''), (''debugMode'', JStr ''function''),
            (''workingDirectory'', JStr ''/work''), (''file'', JStr ''/work/a.R''),
            (''mainFunction'', JStr ''run'')] ''allowGlobalDebugging'' = JUndefined
   \<and> resolveDebugConfiguration exampleResolver noEditor None
        [(''type'', JStr ''R-Debugger''), (''name'', JStr ''Debug R-Function''),
         (''request'', JStr ''launch''), (''debugMode'', JStr ''function''),
         (''workingDirectory'', JStr ''/work''), (''file'', JStr ''/work/a.R''),
         (''mainFunction'', JStr ''run'')]
      = Some (FunctionDebugConfiguration,
          [(''type'', JStr ''R-Debugger''), (''name'', JStr ''Debug R-Function''),
           (''request'', JStr ''launch''), (''debugMode'', JStr ''function''),
           (''workingDirectory'', JStr ''/work''), (''file'', JStr ''/work/a.R''),
           (''mainFunction'', JStr ''run''),
           (''allowGlobalDebugging'', JBool True),
           (''supportsStdoutReading'', JBool True),
           (''supportsWriteToStdinEvent'', JBool True),
           (''supportsShowingPromptRequest'', JBool True),
           (''overwriteHelp'', JBool False)])"
  by code_simp

section \<open>Resolution without a configuration\<close>

text \<open>
  C4. When none of \<^verbatim>\<open>type\<close>, \<^verbatim>\<open>request\<close>, \<^verbatim>\<open>name\<close> of the raw
  configuration is truthy, the resolver builds its own: with a \<^verbatim>\<open>DESCRIPTION\<close>
  file in the workspace folder, a workspace launch with
  \<^verbatim>\<open>includePackageScopes = true\<close> and \<^verbatim>\<open>loadPackages = ["."]\<close>; else, with a
  file document open, a file launch with \<^verbatim>\<open>file = "${file}"\<close>; else a plain
  workspace launch. The results are under the workspace, file and workspace assertions,
  and are given here in full.
\<close>

theorem resolve_without_config:
  assumes "\<not> truthy (getProp config ''type'')"
      and "\<not> truthy (getProp config ''request'')"
      and "\<not> truthy (getProp config ''name'')"
  shows "resolveDebugConfiguration this host folder config =
     (if hasDescription host folder then
        Some (WorkspaceDebugConfiguration,
          [(''type'', JStr ''R-Debugger''),
           (''name'', JStr ''Debug R-Package''),
           (''request'', JStr ''launch''),
           (''debugMode'', JStr ''workspace''),
           (''workingDirectory'', JStr ''${workspaceFolder}''),
           (''loadPackages'', JArr [JStr ''.'']),
           (''includePackageScopes'', JBool True),
           (''allowGlobalDebugging'', JBool True),
           (''supportsStdoutReading'', JBool True),
           (''supportsWriteToStdinEvent'', JBool True),
           (''supportsShowingPromptRequest'', JBool True),
           (''overwriteHelp'', JBool (supportsHelpViewer this))])
      else if docValid host then
        Some (FileDebugConfiguration,
          [(''type'', JStr ''R-Debugger''),
           (''name'', JStr ''Launch R Debugger''),
           (''request'', JStr ''launch''),
           (''debugMode'', JStr ''file''),
           (''file'', JStr ''${file}''),
           (''workingDirectory'',
              JStr (if folder \<noteq> None then ''${workspaceFolder}'' else ''${fileDirname}'')),
           (''allowGlobalDebugging'', JBool True),
           (''supportsStdoutReading'', JBool True),
           (''supportsWriteToStdinEvent'', JBool True),
           (''supportsShowingPromptRequest'', JBool True),
           (''overwriteHelp'', JBool (supportsHelpViewer this))])
      else
        Some (WorkspaceDebugConfiguration,
          [(''type'', JStr ''R-Debugger''),
           (''name'', JStr ''Launch R Debugger''),
           (''request'', JStr ''launch''),
           (''debugMode'', JStr ''workspace''),
           (''workingDirectory'',
              JStr (if folder \<noteq> None then ''${workspaceFolder}'' else ''.'')),
           (''allowGlobalDebugging'', JBool True),
           (''supportsStdoutReading'', JBool True),
           (''supportsWriteToStdinEvent'', JBool True),
           (''supportsShowingPromptRequest'', JBool True),
           (''overwriteHelp'', JBool (supportsHelpViewer this))]))"
proof -
  have l: "launchedWithoutConfig config"
    using assms by (simp add: launchedWithoutConfig_def)
  have r: "resolveDebugConfiguration this host folder config =
             matchDebugMode host folder
               (fillCapabilities this (fillDefaults host (defaultConfig host folder)))"
    using l by (simp add: resolveDebugConfiguration_def Let_def)
  consider (pkg) "hasDescription host folder"
    | (doc) "\<not> hasDescription host folder" "docValid host"
    | (ws) "\<not> hasDescription host folder" "\<not> docValid host"
    by blast
  then show ?thesis
  proof cases
    case pkg
    then have w: "wd host folder = ''${workspaceFolder}''"
      by (auto simp: wd_def dest: hasDescription_folder)
    let ?L1 = "[(''type'', JStr ''R-Debugger''),
           (''name'', JStr ''Debug R-Package''),
           (''request'', JStr ''launch''),
           (''debugMode'', JStr ''workspace''),
           (''workingDirectory'', JStr ''${workspaceFolder}''),
           (''loadPackages'', JArr [JStr ''.'']),
           (''includePackageScopes'', JBool True),
           (''allowGlobalDebugging'', JBool True)]"
    have 1: "fillDefaults host (defaultConfig host folder) = ?L1"
      using pkg
      by (simp add: defaultConfig_def fillDefaults_def w getProp_def setProp_def js_or_def
          js_coalesce_def)
    let ?L2 = "[(''type'', JStr ''R-Debugger''),
           (''name'', JStr ''Debug R-Package''),
           (''request'', JStr ''launch''),
           (''debugMode'', JStr ''workspace''),
           (''workingDirectory'', JStr ''${workspaceFolder}''),
           (''loadPackages'', JArr [JStr ''.'']),
           (''includePackageScopes'', JBool True),
           (''allowGlobalDebugging'', JBool True),
           (''supportsStdoutReading'', JBool True),
           (''supportsWriteToStdinEvent'', JBool True),
           (''supportsShowingPromptRequest'', JBool True),
           (''overwriteHelp'', JBool (supportsHelpViewer this))]"
    have 2: "fillCapabilities this ?L1 = ?L2"
      by (simp add: fillCapabilities_def getProp_def setProp_def js_and_def js_coalesce_def)
    have 3: "matchDebugMode host folder ?L2 = Some (WorkspaceDebugConfiguration, ?L2)"
      by (simp add: matchDebugMode_def getProp_def setProp_def js_or_def)
    have "resolveDebugConfiguration this host folder config = matchDebugMode host folder ?L2"
      by (simp only: r 1 2)
    also note 3
    finally show ?thesis using pkg by simp
  next
    case doc
    then have w: "wd host folder = (if folder \<noteq> None then ''${workspaceFolder}'' else ''${fileDirname}'')"
      by (simp add: wd_def)
    let ?L1 = "[(''type'', JStr ''R-Debugger''),
           (''name'', JStr ''Launch R Debugger''),
           (''request'', JStr ''launch''),
           (''debugMode'', JStr ''file''),
           (''file'', JStr ''${file}''),
           (''workingDirectory'', JStr (wd host folder)),
           (''allowGlobalDebugging'', JBool True)]"
    have 1: "fillDefaults host (defaultConfig host folder) = ?L1"
      using doc
      by (simp add: defaultConfig_def fillDefaults_def getProp_def setProp_def js_or_def
          js_coalesce_def)
    let ?L2 = "[(''type'', JStr ''R-Debugger''),
           (''name'', JStr ''Launch R Debugger''),
           (''request'', JStr ''launch''),
           (''debugMode'', JStr ''file''),
           (''file'', JStr ''${file}''),
           (''workingDirectory'', JStr (wd host folder)),
           (''allowGlobalDebugging'', JBool True),
           (''supportsStdoutReading'', JBool True),
           (''supportsWriteToStdinEvent'', JBool True),
           (''supportsShowingPromptRequest'', JBool True),
           (''overwriteHelp'', JBool (supportsHelpViewer this))]"
    have 2: "fillCapabilities this ?L1 = ?L2"
      by (simp add: fillCapabilities_def getProp_def setProp_def js_and_def js_coalesce_def)
    have 3: "matchDebugMode host folder ?L2 = Some (FileDebugConfiguration, ?L2)"
      by (simp add: matchDebugMode_def getProp_def setProp_def js_or_def wd_nonempty)
    have "resolveDebugConfiguration this host folder config = matchDebugMode host folder ?L2"
      by (simp only: r 1 2)
    also note 3
    finally show ?thesis using doc by (simp add: w)
  next
    case ws
    then have w: "wd host folder = (if folder \<noteq> None then ''${workspaceFolder}'' else ''.'')"
      by (simp add: wd_def)
    let ?L1 = "[(''type'', JStr ''R-Debugger''),
           (''name'', JStr ''Launch R Debugger''),
           (''request'', JStr ''launch''),
           (''debugMode'', JStr ''workspace''),
           (''workingDirectory'', JStr (wd host folder)),
           (''allowGlobalDebugging'', JBool True)]"
    have 1: "fillDefaults host (defaultConfig host folder) = ?L1"
      using ws
      by (simp add: defaultConfig_def fillDefaults_def getProp_def setProp_def js_or_def
          js_coalesce_def)
    let ?L2 = "[(''type'', JStr ''R-Debugger''),
           (''name'', JStr ''Launch R Debugger''),
           (''request'', JStr ''launch''),
           (''debugMode'', JStr ''workspace''),
           (''workingDirectory'', JStr (wd host folder)),
           (''allowGlobalDebugging'', JBool True),
           (''supportsStdoutReading'', JBool True),
           (''supportsWriteToStdinEvent'', JBool True),
           (''supportsShowingPromptRequest'', JBool True),
           (''overwriteHelp'', JBool (supportsHelpViewer this))]"
    have 2: "fillCapabilities this ?L1 = ?L2"
      by (simp add: fillCapabilities_def getProp_def setProp_def js_and_def js_coalesce_def)
    have 3: "matchDebugMode host folder ?L2 = Some (WorkspaceDebugConfiguration, ?L2)"
      by (simp add: matchDebugMode_def getProp_def setProp_def js_or_def wd_nonempty)
    have "resolveDebugConfiguration this host folder config = matchDebugMode host folder ?L2"
      by (simp only: r 1 2)
    also note 3
    finally show ?thesis using ws by (simp add: w)
  qed
qed

theorem resolve_without_config_witness:
  "\<not> truthy (getProp [] ''type'') \<and> \<not> truthy (getProp [] ''request'')
   \<and> \<not> truthy (getProp [] ''name'')
   \<and> resolveDebugConfiguration exampleResolver fileEditor (Some pkgFolder) [] =
       Some (WorkspaceDebugConfiguration,
          [(''type'', JStr ''R-Debugger''),
           (''name'', JStr ''Debug R-Package''),
           (''request'', JStr ''launch''),
           (''debugMode'', JStr ''workspace''),
           (''workingDirectory'', JStr ''${workspaceFolder}''),
           (''loadPackages'', JArr [JStr ''.'']),
           (''includePackageScopes'', JBool True),
           (''allowGlobalDebugging'', JBool True),
           (''supportsStdoutReading'', JBool True),
           (''supportsWriteToStdinEvent'', JBool True),
           (''supportsShowingPromptRequest'', JBool True),
           (''overwriteHelp'', JBool False)])
   \<and> resolveDebugConfiguration exampleResolver fileEditor None [] =
       Some (FileDebugConfiguration,
          [(''type'', JStr ''R-Debugger''),
           (''name'', JStr ''Launch R Debugger''),
           (''request'', JStr ''launch''),
           (''debugMode'', JStr ''file''),
           (''file'', JStr ''${file}''),
           (''workingDirectory'', JStr ''${fileDirname}''),
           (''allowGlobalDebugging'', JBool True),
           (''supportsStdoutReading'', JBool True),
           (''supportsWriteToStdinEvent'', JBool True),
           (''supportsShowingPromptRequest'', JBool True),
           (''overwriteHelp'', JBool False)])
   \<and> resolveDebugConfiguration exampleResolver noEditor None [] =
       Some (WorkspaceDebugConfiguration,
          [(''type'', JStr ''R-Debugger''),
           (''name'', JStr ''Launch R Debugger''),
           (''request'', JStr ''launch''),
           (''debugMode'', JStr ''workspace''),
           (''workingDirectory'', JStr ''.''),
           (''allowGlobalDebugging'', JBool True),
           (''supportsStdoutReading'', JBool True),
           (''supportsWriteToStdinEvent'', JBool True),
           (''supportsShowingPromptRequest'', JBool True),
           (''overwriteHelp'', JBool False)])"
proof -
  have h: "\<not> truthy (getProp [] ''type'')" "\<not> truthy (getProp [] ''request'')"
    "\<not> truthy (getProp [] ''name'')"
    by (simp_all add: getProp_def)
  have e: "hasDescription fileEditor (Some pkgFolder)"
    "\<not> hasDescription fileEditor None" "docValid fileEditor"
    "\<not> hasDescription noEditor None" "\<not> docValid noEditor"
    "supportsHelpViewer exampleResolver = False"
    by (simp_all add: hasDescription_def docValid_def fileEditor_def noEditor_def
        pkgFolder_def exampleResolver_def)
  show ?thesis
    using resolve_without_config [OF h, of exampleResolver fileEditor "Some pkgFolder"]
      resolve_without_config [OF h, of exampleResolver fileEditor None]
      resolve_without_config [OF h, of exampleResolver noEditor None] h
    by (simp add: e)
qed

section \<open>Transport selection\<close>

text \<open>
  C7. Transport selection fails fatally for every session configuration whose
  \<^verbatim>\<open>request\<close> is neither \<^verbatim>\<open>"launch"\<close> nor \<^verbatim>\<open>"attach"\<close>:
  \<open>createDebugAdapterDescriptor\<close> throws the error of line 101 and returns no descriptor.
\<close>

theorem createDebugAdapterDescriptor_invalid_request:
  assumes "getProp config ''request'' \<noteq> JStr ''launch''"
      and "getProp config ''request'' \<noteq> JStr ''attach''"
  shows "createDebugAdapterDescriptor helpPanel config = Inl (Error invalidRequestMessage)"
  using assms by (simp add: createDebugAdapterDescriptor_def)

theorem createDebugAdapterDescriptor_invalid_request_witness:
  "getProp [(''type'', JStr ''R-Debugger''), (''request'', JStr ''restart'')] ''request''
     \<noteq> JStr ''launch''
   \<and> getProp [(''type'', JStr ''R-Debugger''), (''request'', JStr ''restart'')] ''request''
     \<noteq> JStr ''attach''
   \<and> createDebugAdapterDescriptor (None :: unit option)
        [(''type'', JStr ''R-Debugger''), (''request'', JStr ''restart'')]
      = Inl (Error invalidRequestMessage)"
  using createDebugAdapterDescriptor_invalid_request
    [of "[(''type'', JStr ''R-Debugger''), (''request'', JStr ''restart'')]"
        "None :: unit option"]
  by (simp add: getProp_def)

text \<open>
  C8, as the code has it. For every configuration with \<^verbatim>\<open>request = "attach"\<close>,
  \<open>createDebugAdapterDescriptor\<close> returns a server descriptor. Its port is the
  configuration's \<^verbatim>\<open>port\<close> when that value is truthy and 18721 otherwise; its host
  is the configuration's \<^verbatim>\<open>host\<close> when that value is truthy and
  \<^verbatim>\<open>"localhost"\<close> otherwise. So an unset, null or zero port and an unset, null or
  empty host all give the default (lines 97 and 98 use \<^verbatim>\<open>||\<close>).
\<close>

theorem createDebugAdapterDescriptor_attach:
  assumes "getProp config ''request'' = JStr ''attach''"
  shows "createDebugAdapterDescriptor helpPanel config =
           Inr (DebugAdapterServer
                  (if truthy (getProp config ''port'') then getProp config ''port''
                   else JNum 18721)
                  (if truthy (getProp config ''host'') then getProp config ''host''
                   else JStr ''localhost''))"
  using assms by (simp add: createDebugAdapterDescriptor_def js_or_def Let_def)

theorem createDebugAdapterDescriptor_attach_witness:
  "getProp [(''type'', JStr ''R-Debugger''), (''request'', JStr ''attach'')] ''request''
     = JStr ''attach''
   \<and> createDebugAdapterDescriptor (None :: unit option)
        [(''type'', JStr ''R-Debugger''), (''request'', JStr ''attach'')]
      = Inr (DebugAdapterServer (JNum 18721) (JStr ''localhost''))
   \<and> createDebugAdapterDescriptor (None :: unit option)
        [(''request'', JStr ''attach''), (''port'', JNum 4000), (''host'', JStr ''10.0.0.2'')]
      = Inr (DebugAdapterServer (JNum 4000) (JStr ''10.0.0.2''))"
  using createDebugAdapterDescriptor_attach
    [of "[(''type'', JStr ''R-Debugger''), (''request'', JStr ''attach'')]"
        "None :: unit option"]
    createDebugAdapterDescriptor_attach
    [of "[(''request'', JStr ''attach''), (''port'', JNum 4000), (''host'', JStr ''10.0.0.2'')]"
        "None :: unit option"]
  by (simp add: getProp_def)

text \<open>
  The claim C8 as stated, that a port and a host which are set are the ones used, fails
  for a port set to 0 and a host set to the empty string: the defaults replace them.
\<close>

theorem createDebugAdapterDescriptor_attach_falsy_counterexample:
  "createDebugAdapterDescriptor (None :: unit option)
     [(''type'', JStr ''R-Debugger''), (''request'', JStr ''attach''),
      (''port'', JNum 0), (''host'', JStr '''')]
   = Inr (DebugAdapterServer (JNum 18721) (JStr ''localhost''))"
  by (simp add: createDebugAdapterDescriptor_def js_or_def Let_def getProp_def)

section \<open>Dynamic templates\<close>

text \<open>
  C9. With no file document open and no \<^verbatim>\<open>DESCRIPTION\<close> file, the dynamic
  provider returns exactly two templates: the workspace launch first, with
  \<^verbatim>\<open>workingDirectory\<close> \<^verbatim>\<open>"${workspaceFolder}"\<close> when a folder is present and
  \<^verbatim>\<open>"."\<close> otherwise, then the attach template.
\<close>

theorem provideDebugConfigurations_minimal:
  assumes "\<not> docValid host" and "\<not> hasDescription host folder"
  shows "provideDebugConfigurations host folder =
     [[(''type'', JStr ''R-Debugger''),
       (''request'', JStr ''launch''),
       (''name'', JStr ''Launch R-Workspace''),
       (''debugMode'', JStr ''workspace''),
       (''workingDirectory'',
          JStr (if folder \<noteq> None then ''${workspaceFolder}'' else ''.'')),
       (''allowGlobalDebugging'', JBool True)],
      [(''type'', JStr ''R-Debugger''),
       (''request'', JStr ''attach''),
       (''name'', JStr ''Attach to R process''),
       (''splitOverwrittenOutput'', JBool True)]]"
  using assms by (simp add: provideDebugConfigurations_def wd_def)

theorem provideDebugConfigurations_minimal_witness:
  "\<not> docValid noEditor \<and> \<not> hasDescription noEditor (Some plainFolder)
   \<and> \<not> hasDescription noEditor None
   \<and> provideDebugConfigurations noEditor (Some plainFolder) =
     [[(''type'', JStr ''R-Debugger''),
       (''request'', JStr ''launch''),
       (''name'', JStr ''Launch R-Workspace''),
       (''debugMode'', JStr ''workspace''),
       (''workingDirectory'', JStr ''${workspaceFolder}''),
       (''allowGlobalDebugging'', JBool True)],
      [(''type'', JStr ''R-Debugger''),
       (''request'', JStr ''attach''),
       (''name'', JStr ''Attach to R process''),
       (''splitOverwrittenOutput'', JBool True)]]
   \<and> provideDebugConfigurations noEditor None =
     [[(''type'', JStr ''R-Debugger''),
       (''request'', JStr ''launch''),
       (''name'', JStr ''Launch R-Workspace''),
       (''debugMode'', JStr ''workspace''),
       (''workingDirectory'', JStr ''.''),
       (''allowGlobalDebugging'', JBool True)],
      [(''type'', JStr ''R-Debugger''),
       (''request'', JStr ''attach''),
       (''name'', JStr ''Attach to R process''),
       (''splitOverwrittenOutput'', JBool True)]]"
proof -
  have h: "\<not> docValid noEditor" "\<not> hasDescription noEditor (Some plainFolder)"
    "\<not> hasDescription noEditor None"
    by (simp_all add: docValid_def hasDescription_def noEditor_def plainFolder_def)
  show ?thesis
    using provideDebugConfigurations_minimal [OF h(1,2)]
      provideDebugConfigurations_minimal [OF h(1,3)] h
    by simp
qed

end
